theory Spec2Isabelle
  imports Main
begin

section \<open>Strings as Python handles them\<close>

text \<open>
  \<open>str.isspace\<close> on the code points below 256: TAB, LF, VT, FF, CR, the four
  separators 0x1C..0x1F, SPACE, NEL (0x85) and NBSP (0xA0).
\<close>

definition isspace :: "char \<Rightarrow> bool" where
  "isspace c = (c \<in> set [CHR 0x09, CHR 0x0A, CHR 0x0B, CHR 0x0C, CHR 0x0D,
                         CHR 0x1C, CHR 0x1D, CHR 0x1E, CHR 0x1F, CHR 0x20,
                         CHR 0x85, CHR 0xA0])"

text \<open>\<open>str.strip()\<close>: whitespace is removed at both ends.\<close>

definition strip :: "string \<Rightarrow> string" where
  "strip s = rev (dropWhile isspace (rev (dropWhile isspace s)))"

text \<open>
  \<open>str.split(sep)\<close> for a one-character separator: the empty string gives one empty
  field, and a trailing separator gives a trailing empty field.
\<close>

fun split_str :: "char \<Rightarrow> string \<Rightarrow> string list" where
  "split_str sep [] = [[]]"
| "split_str sep (c # cs) =
     (if c = sep then [] # split_str sep cs
      else (case split_str sep cs of
              [] \<Rightarrow> [[c]]
            | p # ps \<Rightarrow> (c # p) # ps))"

text \<open>\<open>command.endswith('\r')\<close>.\<close>

definition endswith_cr :: "string \<Rightarrow> bool" where
  "endswith_cr s = (s \<noteq> [] \<and> last s = CHR 0x0D)"

text \<open>A name between apostrophes, as exception messages print it.\<close>

definition quoted :: "string \<Rightarrow> string" where
  "quoted x = [CHR 0x27] @ x @ [CHR 0x27]"

text \<open>Decimal rendering of a number inside an f-string.\<close>

fun str_nat :: "nat \<Rightarrow> string" where
  "str_nat n =
     (if n < 10 then [char_of (48 + n)]
      else str_nat (n div 10) @ [char_of (48 + n mod 10)])"

section \<open>Values, exceptions and the log\<close>

text \<open>
  The values that \<open>parse_response\<close> returns and that the string-like entries of
  \<open>scanner_data\<close> hold: \<open>None\<close>, a \<open>str\<close>, or a \<open>dict\<close> written as the list of
  its items in insertion order.
\<close>

datatype pyval = PyNone | PyStr string | PyDict "(string \<times> pyval) list"

text \<open>
  The exceptions that the socket layer raises, each with the text of \<open>str(e)\<close>. All are
  subclasses of \<open>Exception\<close>; \<open>socket.timeout\<close> is the one that \<open>send_command\<close>
  catches separately.
\<close>

datatype exn =
    SocketTimeout string
  | OSError string
  | AttributeError string
  | UnicodeDecodeError string

fun str_exn :: "exn \<Rightarrow> string" where
  "str_exn (SocketTimeout m) = m"
| "str_exn (OSError m) = m"
| "str_exn (AttributeError m) = m"
| "str_exn (UnicodeDecodeError m) = m"

datatype level = INFO | WARNING | ERROR

type_synonym logline = "level \<times> string"

section \<open>The socket and the outside world\<close>

text \<open>
  A socket is driven by its peer. Each \<open>sendall\<close> consumes one entry of
  \<open>send_script\<close> and each \<open>recv\<close> one entry of \<open>recv_script\<close>; an exhausted send
  script means the write succeeds, an exhausted receive script means the device stays
  silent and the read times out. \<open>sent\<close> records the data handed to \<open>sendall\<close> on
  an open, connected socket. \<open>close_fault\<close> is the error, if any, that the operating
  system reports when the descriptor is released.
\<close>

datatype send_outcome = Sent | SendTimeout | SendFails string

text \<open>
  The bytes returned by \<open>recv(4096)\<close> either decode to a text or make \<open>decode()\<close>
  raise \<open>UnicodeDecodeError\<close>.
\<close>

datatype payload = Decodable string | Undecodable string

datatype recv_outcome = Data payload | RecvTimeout | RecvFails string

record sock =
  established :: bool
  closed :: bool
  send_script :: "send_outcome list"
  recv_script :: "recv_outcome list"
  sent :: "string list"
  close_fault :: "string option"

definition sendall :: "string \<Rightarrow> sock \<Rightarrow> (exn + unit) \<times> sock" where
  "sendall data k =
     (if closed k then (Inl (OSError ''[Errno 9] Bad file descriptor''), k)
      else if \<not> established k then (Inl (OSError ''[Errno 32] Broken pipe''), k)
      else
        (let k' = k\<lparr>send_script := tl (send_script k), sent := sent k @ [data]\<rparr>
         in case send_script k of
              [] \<Rightarrow> (Inr (), k')
            | Sent # _ \<Rightarrow> (Inr (), k')
            | SendTimeout # _ \<Rightarrow> (Inl (SocketTimeout ''timed out''), k')
            | SendFails m # _ \<Rightarrow> (Inl (OSError m), k')))"

definition recv :: "sock \<Rightarrow> (exn + payload) \<times> sock" where
  "recv k =
     (if closed k then (Inl (OSError ''[Errno 9] Bad file descriptor''), k)
      else if \<not> established k
        then (Inl (OSError ''[Errno 107] Transport endpoint is not connected''), k)
      else
        (let k' = k\<lparr>recv_script := tl (recv_script k)\<rparr>
         in case recv_script k of
              [] \<Rightarrow> (Inl (SocketTimeout ''timed out''), k')
            | Data b # _ \<Rightarrow> (Inr b, k')
            | RecvTimeout # _ \<Rightarrow> (Inl (SocketTimeout ''timed out''), k')
            | RecvFails m # _ \<Rightarrow> (Inl (OSError m), k')))"

fun decode :: "payload \<Rightarrow> exn + string" where
  "decode (Decodable txt) = Inr txt"
| "decode (Undecodable m) = Inl (UnicodeDecodeError m)"

text \<open>
  \<open>socket.close()\<close>: the object is marked closed before the descriptor is released, so
  a failing close still leaves it closed, and closing again does nothing.
\<close>

definition sock_close :: "sock \<Rightarrow> (exn + unit) \<times> sock" where
  "sock_close k =
     (if closed k then (Inr (), k)
      else (case close_fault k of
              None \<Rightarrow> (Inr (), k\<lparr>closed := True\<rparr>)
            | Some m \<Rightarrow> (Inl (OSError m), k\<lparr>closed := True\<rparr>)))"

text \<open>
  What one call of \<open>connect\<close> meets: \<open>socket.socket()\<close> itself fails, or the socket
  is created and \<open>connect()\<close> fails (refused, unreachable, timed out), or the device
  accepts and from then on behaves as the given scripts say.
\<close>

datatype connect_outcome =
    SocketFails string
  | ConnectFails string
  | Accepted "send_outcome list" "recv_outcome list" "string option"

definition fresh_sock :: sock where
  "fresh_sock = \<lparr>established = False, closed = False, send_script = [], recv_script = [],
                 sent = [], close_fault = None\<rparr>"

text \<open>
  The record that \<open>scanner_data\<close> holds. \<open>timestamp\<close> is the instant read from the
  clock (its ISO-8601 rendering is not modelled); \<open>all_responses\<close> is the inner dict.
\<close>

record snapshot =
  timestamp :: "nat option"
  connected :: bool
  model :: pyval
  firmware :: pyval
  frequency :: pyval
  signal_strength :: pyval
  volume :: pyval
  squelch :: pyval
  mode :: pyval
  status :: pyval
  error :: pyval
  all_responses :: "string \<rightharpoonup> string"

text \<open>What \<open>open(DATA_FILE, 'w')\<close> followed by \<open>json.dump\<close> meets, and what the file
  holds afterwards.\<close>

datatype write_outcome = Written | OpenFails string | DumpFails string

datatype file_content = Missing | Json snapshot | Truncated

text \<open>
  Everything outside the scanner object: the clock (\<open>clock k\<close> is the k-th reading of
  \<open>datetime.now()\<close>), the outcomes of the successive connection attempts (exhausted:
  the attempt times out), the outcomes of the successive file writes (exhausted: the
  write succeeds), the data file, the history of snapshots written completely, the
  log, and the durations passed to \<open>time.sleep\<close>.
\<close>

record world =
  clock :: "nat \<Rightarrow> nat"
  clock_reads :: nat
  network :: "connect_outcome list"
  connect_attempts :: nat
  disk :: "write_outcome list"
  data_file :: file_content
  published :: "snapshot list"
  log :: "logline list"
  sleeps :: "nat list"

definition logger :: "level \<Rightarrow> string \<Rightarrow> world \<Rightarrow> world" where
  "logger lv msg w = w\<lparr>log := log w @ [(lv, msg)]\<rparr>"

section \<open>The class \<open>SDS200Scanner\<close>\<close>

record scanner =
  ip :: string
  port :: nat
  socket :: "sock option"
  scanner_data :: snapshot

definition init :: "string \<Rightarrow> nat \<Rightarrow> scanner" where
  "init i p =
     \<lparr>ip = i, port = p, socket = None,
      scanner_data =
        \<lparr>timestamp = None, connected = False, model = PyNone, firmware = PyNone,
         frequency = PyNone, signal_strength = PyNone, volume = PyNone, squelch = PyNone,
         mode = PyNone, status = PyNone, error = PyNone, all_responses = Map.empty\<rparr>\<rparr>"

text \<open>Assignment to one entry of \<open>scanner_data\<close>.\<close>

definition set_data :: "(snapshot \<Rightarrow> snapshot) \<Rightarrow> scanner \<Rightarrow> scanner" where
  "set_data f s = s\<lparr>scanner_data := f (scanner_data s)\<rparr>"

subsection \<open>\<open>connect\<close>\<close>

text \<open>
  The body of the \<open>try\<close>: the new socket object is stored in \<open>self.socket\<close> before
  \<open>connect()\<close> is called on it, so a refused connection leaves an unconnected socket
  behind. \<open>settimeout\<close> on a fresh socket does not fail.
\<close>

definition connect_try :: "scanner \<Rightarrow> world \<Rightarrow> (exn + unit) \<times> scanner \<times> world" where
  "connect_try s w =
     (let w1 = w\<lparr>network := tl (network w), connect_attempts := Suc (connect_attempts w)\<rparr>;
          outcome = (case network w of [] \<Rightarrow> ConnectFails ''timed out'' | x # _ \<Rightarrow> x)
      in case outcome of
           SocketFails m \<Rightarrow> (Inl (OSError m), s, w1)
         | ConnectFails m \<Rightarrow> (Inl (OSError m), s\<lparr>socket := Some fresh_sock\<rparr>, w1)
         | Accepted ss rs cf \<Rightarrow>
             (Inr (),
              set_data (\<lambda>d. d\<lparr>connected := True, error := PyNone\<rparr>)
                (s\<lparr>socket := Some (fresh_sock\<lparr>established := True, send_script := ss,
                                               recv_script := rs, close_fault := cf\<rparr>)\<rparr>),
              logger INFO (''Connected to SDS200 at '' @ ip s @ '':'' @ str_nat (port s)) w1))"

definition connect :: "scanner \<Rightarrow> world \<Rightarrow> bool \<times> scanner \<times> world" where
  "connect s w =
     (case connect_try s w of
        (Inr _, s', w') \<Rightarrow> (True, s', w')
      | (Inl e, s', w') \<Rightarrow>
          (False,
           set_data (\<lambda>d. d\<lparr>connected := False, error := PyStr (str_exn e)\<rparr>) s',
           logger ERROR (''Failed to connect to SDS200: '' @ str_exn e) w'))"

subsection \<open>\<open>disconnect\<close>\<close>

text \<open>A socket object is always truthy, so \<open>if self.socket\<close> tests for \<open>None\<close>.\<close>

definition disconnect :: "scanner \<Rightarrow> world \<Rightarrow> scanner \<times> world" where
  "disconnect s w =
     (case socket s of
        None \<Rightarrow> (s, w)
      | Some k \<Rightarrow>
          (case sock_close k of
             (Inr _, k') \<Rightarrow>
               (set_data (\<lambda>d. d\<lparr>connected := False\<rparr>) (s\<lparr>socket := Some k'\<rparr>),
                logger INFO ''Disconnected from SDS200'' w)
           | (Inl e, k') \<Rightarrow>
               (s\<lparr>socket := Some k'\<rparr>,
                logger ERROR (''Error disconnecting: '' @ str_exn e) w)))"

subsection \<open>\<open>send_command\<close>\<close>

text \<open>
  The body of the \<open>try\<close>, given the command with its terminator. With no socket,
  \<open>self.socket.sendall\<close> is an attribute access on \<open>None\<close>.
\<close>

definition send_command_try :: "string \<Rightarrow> scanner \<Rightarrow> (exn + string) \<times> scanner" where
  "send_command_try command s =
     (case socket s of
        None \<Rightarrow>
          (Inl (AttributeError
                  (quoted ''NoneType'' @ '' object has no attribute '' @ quoted ''sendall'')), s)
      | Some k \<Rightarrow>
          (case sendall command k of
             (Inl e, k1) \<Rightarrow> (Inl e, s\<lparr>socket := Some k1\<rparr>)
           | (Inr _, k1) \<Rightarrow>
               (case recv k1 of
                  (Inl e, k2) \<Rightarrow> (Inl e, s\<lparr>socket := Some k2\<rparr>)
                | (Inr b, k2) \<Rightarrow>
                    (case decode b of
                       Inl e \<Rightarrow> (Inl e, s\<lparr>socket := Some k2\<rparr>)
                     | Inr txt \<Rightarrow> (Inr (strip txt), s\<lparr>socket := Some k2\<rparr>)))))"

definition send_command ::
  "string \<Rightarrow> scanner \<Rightarrow> world \<Rightarrow> string option \<times> scanner \<times> world" where
  "send_command cmd s w =
     (let command = (if \<not> endswith_cr cmd then cmd @ [CHR 0x0D] else cmd)
      in case send_command_try command s of
           (Inr response, s') \<Rightarrow> (Some response, s', w)
         | (Inl (SocketTimeout m), s') \<Rightarrow>
             (None, s', logger WARNING (''Socket timeout for command: '' @ command) w)
         | (Inl e, s') \<Rightarrow>
             (None, s',
              logger ERROR (''Error sending command '' @ command @ '': '' @ str_exn e) w))"

subsection \<open>\<open>parse_response\<close>\<close>

text \<open>
  \<open>if not response\<close> is true for the empty string. Splitting and indexing below the
  checked length raise nothing, so the \<open>except\<close> branch has no counterpart.
\<close>

definition parse_response :: "string \<Rightarrow> string \<Rightarrow> pyval" where
  "parse_response response command_type =
     (if response = [] then PyNone
      else
        (let parts = split_str CHR '','' response
         in if command_type = ''MDL'' \<and> length parts \<ge> 2 then PyStr (parts ! 1)
            else if command_type = ''VER'' \<and> length parts \<ge> 2 then PyStr (parts ! 1)
            else if command_type = ''STS'' \<and> length parts \<ge> 2 then
              PyDict
                [(''frequency'', if length parts > 1 then PyStr (parts ! 1) else PyNone),
                 (''signal_strength'', if length parts > 2 then PyStr (parts ! 2) else PyNone),
                 (''mode'', if length parts > 3 then PyStr (parts ! 3) else PyNone),
                 (''volume'', if length parts > 4 then PyStr (parts ! 4) else PyNone),
                 (''squelch'', if length parts > 5 then PyStr (parts ! 5) else PyNone)]
            else PyStr response))"

subsection \<open>\<open>get_model\<close>, \<open>get_firmware\<close>, \<open>get_status\<close>\<close>

text \<open>\<open>if response\<close>: neither \<open>None\<close> nor the empty string.\<close>

definition truthy :: "string option \<Rightarrow> bool" where
  "truthy r = (case r of None \<Rightarrow> False | Some x \<Rightarrow> x \<noteq> [])"

text \<open>
  \<open>scanner_data[key] = value\<close> for the keys that hold a string or \<open>None\<close>, and
  \<open>scanner_data.update(d)\<close>, which assigns the items of \<open>d\<close> in order. The dict built
  by \<open>parse_response\<close> has the five keys frequency, signal_strength, mode, volume and
  squelch only.
\<close>

definition setitem :: "string \<Rightarrow> pyval \<Rightarrow> snapshot \<Rightarrow> snapshot" where
  "setitem key v d =
     (if key = ''model'' then d\<lparr>model := v\<rparr>
      else if key = ''firmware'' then d\<lparr>firmware := v\<rparr>
      else if key = ''frequency'' then d\<lparr>frequency := v\<rparr>
      else if key = ''signal_strength'' then d\<lparr>signal_strength := v\<rparr>
      else if key = ''volume'' then d\<lparr>volume := v\<rparr>
      else if key = ''squelch'' then d\<lparr>squelch := v\<rparr>
      else if key = ''mode'' then d\<lparr>mode := v\<rparr>
      else if key = ''status'' then d\<lparr>status := v\<rparr>
      else if key = ''error'' then d\<lparr>error := v\<rparr>
      else d)"

definition update :: "(string \<times> pyval) list \<Rightarrow> snapshot \<Rightarrow> snapshot" where
  "update items d = fold (\<lambda>(key, v). setitem key v) items d"

definition get_model :: "scanner \<Rightarrow> world \<Rightarrow> scanner \<times> world" where
  "get_model s w =
     (case send_command ''MDL'' s w of
        (response, s', w') \<Rightarrow>
          (if truthy response then
             (set_data (\<lambda>d. d\<lparr>model := parse_response (the response) ''MDL'',
                              all_responses := (all_responses d)(''MDL'' \<mapsto> the response)\<rparr>) s',
              w')
           else (s', w')))"

definition get_firmware :: "scanner \<Rightarrow> world \<Rightarrow> scanner \<times> world" where
  "get_firmware s w =
     (case send_command ''VER'' s w of
        (response, s', w') \<Rightarrow>
          (if truthy response then
             (set_data (\<lambda>d. d\<lparr>firmware := parse_response (the response) ''VER'',
                              all_responses := (all_responses d)(''VER'' \<mapsto> the response)\<rparr>) s',
              w')
           else (s', w')))"

definition get_status :: "scanner \<Rightarrow> world \<Rightarrow> scanner \<times> world" where
  "get_status s w =
     (case send_command ''STS'' s w of
        (response, s', w') \<Rightarrow>
          (if truthy response then
             (let st = parse_response (the response) ''STS'';
                  s1 = (case st of
                          PyDict items \<Rightarrow> set_data (update items) s'
                        | _ \<Rightarrow> s')
              in (set_data (\<lambda>d. d\<lparr>status := PyStr (the response),
                                   all_responses := (all_responses d)(''STS'' \<mapsto> the response)\<rparr>) s1,
                  w'))
           else (s', w')))"

subsection \<open>\<open>pull_all_data\<close>, \<open>save_to_file\<close> and the loop\<close>

text \<open>
  The three queries of the \<open>try\<close> block. None of them raises (each catches its own
  failures inside \<open>send_command\<close>), so the \<open>except\<close> branch of \<open>pull_all_data\<close> is
  never taken and the block returns \<open>True\<close>.
\<close>

definition pull_queries :: "scanner \<Rightarrow> world \<Rightarrow> bool \<times> scanner \<times> world" where
  "pull_queries s w =
     (case get_model s w of
        (s1, w1) \<Rightarrow>
          (case get_firmware s1 w1 of
             (s2, w2) \<Rightarrow>
               (case get_status s2 w2 of
                  (s3, w3) \<Rightarrow> (True, s3, w3))))"

definition pull_all_data :: "scanner \<Rightarrow> world \<Rightarrow> bool \<times> scanner \<times> world" where
  "pull_all_data s w =
     (let s0 = set_data (\<lambda>d. d\<lparr>timestamp := Some (clock w (clock_reads w))\<rparr>) s;
          w0 = w\<lparr>clock_reads := Suc (clock_reads w)\<rparr>
      in if \<not> connected (scanner_data s0) then
           (case connect s0 w0 of
              (ok, s1, w1) \<Rightarrow> if \<not> ok then (False, s1, w1) else pull_queries s1 w1)
         else pull_queries s0 w0)"

text \<open>
  \<open>save_to_file\<close>: a failing \<open>open\<close> leaves the file as it was, a failure during
  \<open>json.dump\<close> leaves it truncated; both are logged and swallowed. The
  \<open>logger.debug\<close> line is below the configured level and leaves no trace.
\<close>

definition save_to_file :: "scanner \<Rightarrow> world \<Rightarrow> world" where
  "save_to_file s w =
     (let w1 = w\<lparr>disk := tl (disk w)\<rparr>;
          outcome = (case disk w of [] \<Rightarrow> Written | x # _ \<Rightarrow> x)
      in case outcome of
           Written \<Rightarrow>
             w1\<lparr>data_file := Json (scanner_data s),
                published := published w1 @ [scanner_data s]\<rparr>
         | OpenFails m \<Rightarrow> logger ERROR (''Error saving data to file: '' @ m) w1
         | DumpFails m \<Rightarrow>
             logger ERROR (''Error saving data to file: '' @ m) (w1\<lparr>data_file := Truncated\<rparr>))"

definition sleep :: "nat \<Rightarrow> world \<Rightarrow> world" where
  "sleep secs w = w\<lparr>sleeps := sleeps w @ [secs]\<rparr>"

text \<open>
  One iteration of the \<open>while True\<close> loop of \<open>continuous_scan\<close>. Every call in the
  body catches its own failures, so the loop's \<open>except Exception\<close> branch (disconnect,
  then a pause of five seconds) is not reached.
\<close>

definition cycle :: "nat \<Rightarrow> scanner \<Rightarrow> world \<Rightarrow> scanner \<times> world" where
  "cycle interval s w =
     (case (if \<not> connected (scanner_data s)
            then (case connect s w of (_, s1, w1) \<Rightarrow> (s1, w1))
            else (s, w)) of
        (s1, w1) \<Rightarrow>
          (case pull_all_data s1 w1 of
             (_, s2, w2) \<Rightarrow> (s2, sleep interval (save_to_file s2 w2))))"


section \<open>Example states\<close>

text \<open>A world in which nothing is scripted, with a clock that counts its readings.\<close>

definition quiet_world :: world where
  "quiet_world = \<lparr>clock = (\<lambda>k. k), clock_reads = 0, network = [], connect_attempts = 0,
                  disk = [], data_file = Missing, published = [], log = [], sleeps = []\<rparr>"

text \<open>The scanner object as \<open>main\<close> creates it.\<close>

definition scanner0 :: scanner where
  "scanner0 = init ''192.168.2.251'' 10001"

text \<open>Replies that decode, and a world whose device accepts the first connection and
  then answers as scripted.\<close>

definition replies :: "string list \<Rightarrow> recv_outcome list" where
  "replies rs = map (\<lambda>r. Data (Decodable r)) rs"

definition device :: "recv_outcome list \<Rightarrow> world" where
  "device rs = quiet_world\<lparr>network := [Accepted [] rs None]\<rparr>"

text \<open>
  The scanner object after one complete cycle against a device that answered
  \<open>MDL,SDS200,\<close>, \<open>VER,1.02.00,\<close> and \<open>STS,154.6700,60,NFM,8,2\<close>, and whose
  socket from now on receives what \<open>rs\<close> says.
\<close>

definition tuned :: "recv_outcome list \<Rightarrow> scanner" where
  "tuned rs =
     \<lparr>ip = ''192.168.2.251'', port = 10001,
      socket = Some \<lparr>established = True, closed = False, send_script = [], recv_script = rs,
                     sent = [''MDL'' @ [CHR 0x0D], ''VER'' @ [CHR 0x0D], ''STS'' @ [CHR 0x0D]],
                     close_fault = None\<rparr>,
      scanner_data =
        \<lparr>timestamp = Some 0, connected = True, model = PyStr ''SDS200'',
         firmware = PyStr ''1.02.00'', frequency = PyStr ''154.6700'',
         signal_strength = PyStr ''60'', volume = PyStr ''8'', squelch = PyStr ''2'',
         mode = PyStr ''NFM'', status = PyStr ''STS,154.6700,60,NFM,8,2'', error = PyNone,
         all_responses = [''MDL'' \<mapsto> ''MDL,SDS200,'', ''VER'' \<mapsto> ''VER,1.02.00,'',
                          ''STS'' \<mapsto> ''STS,154.6700,60,NFM,8,2'']\<rparr>\<rparr>"


definition slow_link :: scanner where
  "slow_link = tuned (RecvTimeout # replies [''VER,1.02.00,'', ''STS,154.6700,60,NFM,8,2''])"

text \<open>The scanner right after a successful \<open>connect\<close> to a device whose socket will
  report an I/O error when it is closed.\<close>

definition faulty_link :: scanner where
  "faulty_link =
     fst (snd (connect scanner0
       (quiet_world\<lparr>network := [Accepted [] [] (Some ''[Errno 5] Input/output error'')]\<rparr>)))"

lemmas run_defs =
  pull_all_data_def pull_queries_def get_model_def get_firmware_def get_status_def
  send_command_def send_command_try_def sendall_def recv_def connect_def connect_try_def
  save_to_file_def sleep_def logger_def set_data_def update_def setitem_def truthy_def
  parse_response_def strip_def isspace_def endswith_cr_def fresh_sock_def init_def
  scanner0_def quiet_world_def device_def replies_def tuned_def Let_def

section \<open>Frame lemmas for the socket layer\<close>

lemma sendall_effect:
  assumes "sendall d k = (r, k')"
  shows "closed k' = closed k" and "established k' = established k"
    and "close_fault k' = close_fault k" and "recv_script k' = recv_script k"
    and "\<not> closed k \<Longrightarrow> established k \<Longrightarrow> sent k' = sent k @ [d]"
    and "closed k \<or> \<not> established k \<Longrightarrow> k' = k"
  using assms
  by (auto simp: sendall_def Let_def split: if_splits list.splits send_outcome.splits)

lemma recv_effect:
  assumes "recv k = (r, k')"
  shows "closed k' = closed k" and "established k' = established k"
    and "close_fault k' = close_fault k" and "send_script k' = send_script k"
    and "sent k' = sent k"
  using assms
  by (auto simp: recv_def Let_def split: if_splits list.splits recv_outcome.splits)

lemma send_command_try_data:
  assumes "send_command_try c s = (r, s')"
  shows "scanner_data s' = scanner_data s" and "ip s' = ip s" and "port s' = port s"
    and "socket s' = None \<longleftrightarrow> socket s = None"
  using assms
  by (auto simp: send_command_try_def split: option.splits prod.splits sum.splits)

lemma send_command_try_sock:
  assumes "send_command_try c s = (r, s')" and "socket s = Some k"
    and "\<not> closed k" and "established k"
  shows "\<exists>k'. socket s' = Some k' \<and> \<not> closed k' \<and> established k'
            \<and> sent k' = sent k @ [c] \<and> close_fault k' = close_fault k"
proof -
  obtain r1 k1 where a: "sendall c k = (r1, k1)" by (cases "sendall c k")
  obtain r2 k2 where b: "recv k1 = (r2, k2)" by (cases "recv k1")
  note e1 = sendall_effect[OF a] and e2 = recv_effect[OF b]
  show ?thesis
    using assms a b e1(1,2,3) e1(5) e2(1,2,3,5)
    by (auto simp: send_command_try_def split: sum.splits)
qed

lemma send_command_data:
  assumes "send_command cmd s w = (r, s', w')"
  shows "scanner_data s' = scanner_data s" and "ip s' = ip s" and "port s' = port s"
    and "socket s' = None \<longleftrightarrow> socket s = None"
proof -
  let ?c = "if \<not> endswith_cr cmd then cmd @ [CHR 0x0D] else cmd"
  obtain r1 s1 where a: "send_command_try ?c s = (r1, s1)" by (cases "send_command_try ?c s")
  have "s' = s1"
    using assms a by (auto simp: send_command_def Let_def split: sum.splits exn.splits)
  with send_command_try_data[OF a]
  show "scanner_data s' = scanner_data s" and "ip s' = ip s" and "port s' = port s"
    and "socket s' = None \<longleftrightarrow> socket s = None"
    by simp_all
qed

lemma send_command_world:
  assumes "send_command cmd s w = (r, s', w')"
  shows "clock w' = clock w" and "clock_reads w' = clock_reads w"
    and "network w' = network w" and "connect_attempts w' = connect_attempts w"
    and "disk w' = disk w" and "data_file w' = data_file w"
    and "published w' = published w" and "sleeps w' = sleeps w"
  using assms
  by (auto simp: send_command_def Let_def logger_def split: sum.splits exn.splits prod.splits)

lemma send_command_sock:
  assumes "send_command cmd s w = (r, s', w')" and "socket s = Some k"
    and "\<not> closed k" and "established k" and "\<not> endswith_cr cmd"
  shows "\<exists>k'. socket s' = Some k' \<and> \<not> closed k' \<and> established k'
            \<and> sent k' = sent k @ [cmd @ [CHR 0x0D]] \<and> close_fault k' = close_fault k"
proof -
  obtain r1 s1 where a: "send_command_try (cmd @ [CHR 0x0D]) s = (r1, s1)"
    by (cases "send_command_try (cmd @ [CHR 0x0D]) s")
  have "s' = s1"
    using assms(1,5) a by (auto simp: send_command_def Let_def split: sum.splits exn.splits)
  with send_command_try_sock[OF a assms(2,3,4)] show ?thesis by simp
qed

section \<open>Frame lemmas for the queries\<close>

lemma setitem_frame:
  "connected (setitem key v d) = connected d"
  "timestamp (setitem key v d) = timestamp d"
  "all_responses (setitem key v d) = all_responses d"
  by (simp_all add: setitem_def)

lemma update_frame:
  "connected (update items d) = connected d"
  "timestamp (update items d) = timestamp d"
  "all_responses (update items d) = all_responses d"
  unfolding update_def
  by (induction items arbitrary: d) (auto simp: setitem_frame)

lemma get_model_frame:
  assumes "get_model s w = (s', w')"
  shows "connected (scanner_data s') = connected (scanner_data s)"
    and "error (scanner_data s') = error (scanner_data s)"
    and "timestamp (scanner_data s') = timestamp (scanner_data s)"
    and "socket s' = None \<longleftrightarrow> socket s = None"
    and "clock w' = clock w" and "clock_reads w' = clock_reads w"
    and "network w' = network w" and "connect_attempts w' = connect_attempts w"
    and "disk w' = disk w" and "data_file w' = data_file w"
    and "published w' = published w" and "sleeps w' = sleeps w"
proof -
  obtain r s1 w1 where a: "send_command ''MDL'' s w = (r, s1, w1)"
    by (cases "send_command ''MDL'' s w")
  note d = send_command_data[OF a] and v = send_command_world[OF a]
  have w: "w' = w1" and s: "s' = s1 \<or> s' = set_data (\<lambda>d. d\<lparr>model := parse_response (the r) ''MDL'',
        all_responses := (all_responses d)(''MDL'' \<mapsto> the r)\<rparr>) s1"
    using assms a by (auto simp: get_model_def split: if_splits)
  show "connected (scanner_data s') = connected (scanner_data s)"
    and "error (scanner_data s') = error (scanner_data s)"
    and "timestamp (scanner_data s') = timestamp (scanner_data s)"
    and "socket s' = None \<longleftrightarrow> socket s = None"
    using s d by (auto simp: set_data_def)
  show "clock w' = clock w" and "clock_reads w' = clock_reads w"
    and "network w' = network w" and "connect_attempts w' = connect_attempts w"
    and "disk w' = disk w" and "data_file w' = data_file w"
    and "published w' = published w" and "sleeps w' = sleeps w"
    using w v by simp_all
qed

lemma get_firmware_frame:
  assumes "get_firmware s w = (s', w')"
  shows "connected (scanner_data s') = connected (scanner_data s)"
    and "error (scanner_data s') = error (scanner_data s)"
    and "timestamp (scanner_data s') = timestamp (scanner_data s)"
    and "socket s' = None \<longleftrightarrow> socket s = None"
    and "clock w' = clock w" and "clock_reads w' = clock_reads w"
    and "network w' = network w" and "connect_attempts w' = connect_attempts w"
    and "disk w' = disk w" and "data_file w' = data_file w"
    and "published w' = published w" and "sleeps w' = sleeps w"
proof -
  obtain r s1 w1 where a: "send_command ''VER'' s w = (r, s1, w1)"
    by (cases "send_command ''VER'' s w")
  note d = send_command_data[OF a] and v = send_command_world[OF a]
  have w: "w' = w1" and s: "s' = s1 \<or> s' = set_data (\<lambda>d. d\<lparr>firmware := parse_response (the r) ''VER'',
        all_responses := (all_responses d)(''VER'' \<mapsto> the r)\<rparr>) s1"
    using assms a by (auto simp: get_firmware_def split: if_splits)
  show "connected (scanner_data s') = connected (scanner_data s)"
    and "error (scanner_data s') = error (scanner_data s)"
    and "timestamp (scanner_data s') = timestamp (scanner_data s)"
    and "socket s' = None \<longleftrightarrow> socket s = None"
    using s d by (auto simp: set_data_def)
  show "clock w' = clock w" and "clock_reads w' = clock_reads w"
    and "network w' = network w" and "connect_attempts w' = connect_attempts w"
    and "disk w' = disk w" and "data_file w' = data_file w"
    and "published w' = published w" and "sleeps w' = sleeps w"
    using w v by simp_all
qed

text \<open>The dict that \<open>parse_response\<close> builds has no \<open>error\<close> key.\<close>

lemma parse_response_dict_keys:
  "parse_response r ct = PyDict items \<Longrightarrow>
     map fst items = [''frequency'', ''signal_strength'', ''mode'', ''volume'', ''squelch'']"
  by (auto simp: parse_response_def Let_def split: if_splits)

lemma parse_response_dict_no_error:
  "parse_response r ct = PyDict items \<Longrightarrow> ''error'' \<notin> fst ` set items"
  by (auto simp: parse_response_def Let_def split: if_splits)

lemma update_error:
  "''error'' \<notin> fst ` set items \<Longrightarrow> error (update items d) = error d"
  unfolding update_def
  by (induction items arbitrary: d) (auto simp: setitem_def)

lemma get_status_frame:
  assumes "get_status s w = (s', w')"
  shows "connected (scanner_data s') = connected (scanner_data s)"
    and "error (scanner_data s') = error (scanner_data s)"
    and "timestamp (scanner_data s') = timestamp (scanner_data s)"
    and "socket s' = None \<longleftrightarrow> socket s = None"
    and "clock w' = clock w" and "clock_reads w' = clock_reads w"
    and "network w' = network w" and "connect_attempts w' = connect_attempts w"
    and "disk w' = disk w" and "data_file w' = data_file w"
    and "published w' = published w" and "sleeps w' = sleeps w"
proof -
  obtain r s1 w1 where a: "send_command ''STS'' s w = (r, s1, w1)"
    by (cases "send_command ''STS'' s w")
  note d = send_command_data[OF a] and v = send_command_world[OF a]
  have w: "w' = w1"
    using assms a by (auto simp: get_status_def Let_def split: if_splits)
  have e: "error (update items x) = error x" if "parse_response (the r) ''STS'' = PyDict items"
    for items x
    using parse_response_dict_no_error[OF that] by (rule update_error)
  show "connected (scanner_data s') = connected (scanner_data s)"
    and "timestamp (scanner_data s') = timestamp (scanner_data s)"
    and "socket s' = None \<longleftrightarrow> socket s = None"
    using assms a d
    by (auto simp: get_status_def Let_def set_data_def update_frame split: if_splits pyval.splits)
  show "error (scanner_data s') = error (scanner_data s)"
    using assms a d e
    by (auto simp: get_status_def Let_def set_data_def split: if_splits pyval.splits)
  show "clock w' = clock w" and "clock_reads w' = clock_reads w"
    and "network w' = network w" and "connect_attempts w' = connect_attempts w"
    and "disk w' = disk w" and "data_file w' = data_file w"
    and "published w' = published w" and "sleeps w' = sleeps w"
    using w v by simp_all
qed

lemma get_model_sock:
  assumes "get_model s w = (s', w')" and "socket s = Some k"
    and "\<not> closed k" and "established k"
  shows "\<exists>k'. socket s' = Some k' \<and> \<not> closed k' \<and> established k'
            \<and> sent k' = sent k @ [''MDL'' @ [CHR 0x0D]] \<and> close_fault k' = close_fault k"
proof -
  obtain r s1 w1 where a: "send_command ''MDL'' s w = (r, s1, w1)"
    by (cases "send_command ''MDL'' s w")
  have "socket s' = socket s1"
    using assms(1) a by (auto simp: get_model_def set_data_def split: if_splits)
  with send_command_sock[OF a assms(2,3,4)] show ?thesis
    by (simp add: endswith_cr_def)
qed

lemma get_firmware_sock:
  assumes "get_firmware s w = (s', w')" and "socket s = Some k"
    and "\<not> closed k" and "established k"
  shows "\<exists>k'. socket s' = Some k' \<and> \<not> closed k' \<and> established k'
            \<and> sent k' = sent k @ [''VER'' @ [CHR 0x0D]] \<and> close_fault k' = close_fault k"
proof -
  obtain r s1 w1 where a: "send_command ''VER'' s w = (r, s1, w1)"
    by (cases "send_command ''VER'' s w")
  have "socket s' = socket s1"
    using assms(1) a by (auto simp: get_firmware_def set_data_def split: if_splits)
  with send_command_sock[OF a assms(2,3,4)] show ?thesis
    by (simp add: endswith_cr_def)
qed

lemma get_status_sock:
  assumes "get_status s w = (s', w')" and "socket s = Some k"
    and "\<not> closed k" and "established k"
  shows "\<exists>k'. socket s' = Some k' \<and> \<not> closed k' \<and> established k'
            \<and> sent k' = sent k @ [''STS'' @ [CHR 0x0D]] \<and> close_fault k' = close_fault k"
proof -
  obtain r s1 w1 where a: "send_command ''STS'' s w = (r, s1, w1)"
    by (cases "send_command ''STS'' s w")
  have "socket s' = socket s1"
    using assms(1) a
    by (auto simp: get_status_def set_data_def Let_def split: if_splits pyval.splits)
  with send_command_sock[OF a assms(2,3,4)] show ?thesis
    by (simp add: endswith_cr_def)
qed

lemma pull_queries_frame:
  assumes "pull_queries s w = (ok, s', w')"
  shows "ok"
    and "connected (scanner_data s') = connected (scanner_data s)"
    and "error (scanner_data s') = error (scanner_data s)"
    and "timestamp (scanner_data s') = timestamp (scanner_data s)"
    and "socket s' = None \<longleftrightarrow> socket s = None"
    and "clock w' = clock w" and "clock_reads w' = clock_reads w"
    and "network w' = network w" and "connect_attempts w' = connect_attempts w"
    and "disk w' = disk w" and "data_file w' = data_file w"
    and "published w' = published w" and "sleeps w' = sleeps w"
proof -
  obtain s1 w1 where a: "get_model s w = (s1, w1)" by (cases "get_model s w")
  obtain s2 w2 where b: "get_firmware s1 w1 = (s2, w2)" by (cases "get_firmware s1 w1")
  obtain s3 w3 where c: "get_status s2 w2 = (s3, w3)" by (cases "get_status s2 w2")
  have e: "ok" "s' = s3" "w' = w3"
    using assms a b c by (simp_all add: pull_queries_def)
  note fa = get_model_frame[OF a] and fb = get_firmware_frame[OF b]
    and fc = get_status_frame[OF c]
  show "ok" by (rule e(1))
  show "connected (scanner_data s') = connected (scanner_data s)"
    using e fa(1) fb(1) fc(1) by simp
  show "error (scanner_data s') = error (scanner_data s)"
    using e fa(2) fb(2) fc(2) by simp
  show "timestamp (scanner_data s') = timestamp (scanner_data s)"
    using e fa(3) fb(3) fc(3) by simp
  show "socket s' = None \<longleftrightarrow> socket s = None"
    using e fa(4) fb(4) fc(4) by simp
  show "clock w' = clock w" using e fa(5) fb(5) fc(5) by simp
  show "clock_reads w' = clock_reads w" using e fa(6) fb(6) fc(6) by simp
  show "network w' = network w" using e fa(7) fb(7) fc(7) by simp
  show "connect_attempts w' = connect_attempts w" using e fa(8) fb(8) fc(8) by simp
  show "disk w' = disk w" using e fa(9) fb(9) fc(9) by simp
  show "data_file w' = data_file w" using e fa(10) fb(10) fc(10) by simp
  show "published w' = published w" using e fa(11) fb(11) fc(11) by simp
  show "sleeps w' = sleeps w" using e fa(12) fb(12) fc(12) by simp
qed

lemma pull_queries_sock:
  assumes "pull_queries s w = (ok, s', w')" and "socket s = Some k"
    and "\<not> closed k" and "established k"
  shows "\<exists>k'. socket s' = Some k' \<and> \<not> closed k' \<and> established k'
            \<and> sent k' = sent k @ [''MDL'' @ [CHR 0x0D], ''VER'' @ [CHR 0x0D], ''STS'' @ [CHR 0x0D]]
            \<and> close_fault k' = close_fault k"
proof -
  obtain s1 w1 where a: "get_model s w = (s1, w1)" by (cases "get_model s w")
  obtain s2 w2 where b: "get_firmware s1 w1 = (s2, w2)" by (cases "get_firmware s1 w1")
  obtain s3 w3 where c: "get_status s2 w2 = (s3, w3)" by (cases "get_status s2 w2")
  have e: "s' = s3"
    using assms(1) a b c by (simp_all add: pull_queries_def)
  from get_model_sock[OF a assms(2,3,4)] obtain k1 where
    k1: "socket s1 = Some k1" "\<not> closed k1" "established k1"
        "sent k1 = sent k @ [''MDL'' @ [CHR 0x0D]]" "close_fault k1 = close_fault k"
    by blast
  from get_firmware_sock[OF b k1(1,2,3)] obtain k2 where
    k2: "socket s2 = Some k2" "\<not> closed k2" "established k2"
        "sent k2 = sent k1 @ [''VER'' @ [CHR 0x0D]]" "close_fault k2 = close_fault k1"
    by blast
  from get_status_sock[OF c k2(1,2,3)] obtain k3 where
    k3: "socket s3 = Some k3" "\<not> closed k3" "established k3"
        "sent k3 = sent k2 @ [''STS'' @ [CHR 0x0D]]" "close_fault k3 = close_fault k2"
    by blast
  show ?thesis
    using e k1 k2 k3 by simp
qed

section \<open>Frame lemmas for connecting and for the cycle\<close>

lemma connect_try_cases:
  "connect_try s w = (r, s', w') \<Longrightarrow>
     clock w' = clock w \<and> clock_reads w' = clock_reads w \<and> network w' = tl (network w)
     \<and> connect_attempts w' = Suc (connect_attempts w) \<and> disk w' = disk w
     \<and> data_file w' = data_file w \<and> published w' = published w \<and> sleeps w' = sleeps w
     \<and> timestamp (scanner_data s') = timestamp (scanner_data s)
     \<and> (case r of
           Inl e \<Rightarrow> scanner_data s' = scanner_data s \<and> (socket s' = socket s \<or> socket s' = Some fresh_sock)
         | Inr _ \<Rightarrow> connected (scanner_data s') \<and> error (scanner_data s') = PyNone
                   \<and> (\<exists>k. socket s' = Some k \<and> \<not> closed k \<and> established k \<and> sent k = []))"
  by (auto simp: connect_try_def Let_def logger_def set_data_def fresh_sock_def
           split: list.splits connect_outcome.splits)

lemma connect_frame:
  assumes "connect s w = (ok, s', w')"
  shows "clock w' = clock w" and "clock_reads w' = clock_reads w"
    and "network w' = tl (network w)"
    and "connect_attempts w' = Suc (connect_attempts w)" and "disk w' = disk w"
    and "data_file w' = data_file w" and "published w' = published w"
    and "sleeps w' = sleeps w"
    and "timestamp (scanner_data s') = timestamp (scanner_data s)"
    and "connected (scanner_data s') = ok"
    and "ok \<Longrightarrow> error (scanner_data s') = PyNone"
    and "ok \<Longrightarrow> \<exists>k. socket s' = Some k \<and> \<not> closed k \<and> established k \<and> sent k = []"
proof -
  obtain r s1 w1 where a: "connect_try s w = (r, s1, w1)" by (cases "connect_try s w")
  note c = connect_try_cases[OF a]
  show "clock w' = clock w" and "clock_reads w' = clock_reads w"
    and "network w' = tl (network w)"
    and "connect_attempts w' = Suc (connect_attempts w)" and "disk w' = disk w"
    and "data_file w' = data_file w" and "published w' = published w"
    and "sleeps w' = sleeps w"
    using assms a c by (auto simp: connect_def logger_def split: sum.splits)
  show "timestamp (scanner_data s') = timestamp (scanner_data s)"
    and "connected (scanner_data s') = ok"
    and "ok \<Longrightarrow> error (scanner_data s') = PyNone"
    and "ok \<Longrightarrow> \<exists>k. socket s' = Some k \<and> \<not> closed k \<and> established k \<and> sent k = []"
    using assms a c by (auto simp: connect_def set_data_def split: sum.splits)
qed


lemma pull_all_data_connected:
  assumes "connected (scanner_data s)"
  shows "pull_all_data s w =
           pull_queries (set_data (\<lambda>d. d\<lparr>timestamp := Some (clock w (clock_reads w))\<rparr>) s)
                        (w\<lparr>clock_reads := Suc (clock_reads w)\<rparr>)"
  using assms by (simp add: pull_all_data_def Let_def set_data_def)






section \<open>Facts about the example states, splitting and \<open>disconnect\<close>\<close>

lemma tuned_reachable:
  "fst (cycle 1 scanner0
         (device (replies [''MDL,SDS200,'', ''VER,1.02.00,'', ''STS,154.6700,60,NFM,8,2''] @ rs)))
   = tuned rs"
  by (simp add: run_defs cycle_def)

lemma split_str_nonempty: "split_str sep s \<noteq> []"
  by (induction s) (auto split: list.splits)

lemma split_str_single: "length (split_str sep s) < 2 \<longleftrightarrow> sep \<notin> set s"
  using split_str_nonempty[of sep]
  by (induction s) (auto split: list.splits)

lemma get_model_no_response:
  "fst (send_command ''MDL'' s w) = None \<Longrightarrow> scanner_data (fst (get_model s w)) = scanner_data s"
  by (cases "send_command ''MDL'' s w")
     (auto simp: get_model_def truthy_def dest: send_command_data(1))

lemma get_firmware_no_response:
  "fst (send_command ''VER'' s w) = None \<Longrightarrow> scanner_data (fst (get_firmware s w)) = scanner_data s"
  by (cases "send_command ''VER'' s w")
     (auto simp: get_firmware_def truthy_def dest: send_command_data(1))

lemma get_status_no_response:
  "fst (send_command ''STS'' s w) = None \<Longrightarrow> scanner_data (fst (get_status s w)) = scanner_data s"
  by (cases "send_command ''STS'' s w")
     (auto simp: get_status_def truthy_def dest: send_command_data(1))

text \<open>
  What \<open>disconnect\<close> does achieve: when \<open>close()\<close> succeeds the scanner is inactive
  afterwards, and after two calls in a row it is inactive whenever a socket exists.
\<close>

lemma disconnect_inactive:
  "socket s = Some k \<Longrightarrow> closed k \<or> close_fault k = None \<Longrightarrow>
     \<not> connected (scanner_data (fst (disconnect s w)))"
  by (auto simp: disconnect_def sock_close_def set_data_def)

lemma disconnect_closes:
  "socket s = Some k \<Longrightarrow> \<exists>k'. socket (fst (disconnect s w)) = Some k' \<and> closed k'"
  by (auto simp: disconnect_def sock_close_def set_data_def split: option.splits)

lemma disconnect_twice_inactive:
  assumes "socket s = Some k"
  shows "\<not> connected (scanner_data
            (fst (disconnect (fst (disconnect s w)) (snd (disconnect s w)))))"
proof -
  from disconnect_closes[OF assms, of w] obtain k' where
    "socket (fst (disconnect s w)) = Some k'" "closed k'" by blast
  then show ?thesis
    by (simp add: disconnect_inactive)
qed

lemma split_str_field:
  "sep \<notin> set f \<Longrightarrow> split_str sep (f @ sep # rest) = f # split_str sep rest"
  by (induction f) auto

lemma split_str_last: "sep \<notin> set f \<Longrightarrow> split_str sep f = [f]"
  by (induction f) auto

section \<open>The claims\<close>

subsection \<open>C1: Truncated STS replies\<close>

text \<open>
  C1, as amended. The claim is that every STS reply with fewer than 6 comma-separated
  fields overwrites each missing position with \<open>None\<close>. The code does so for replies of
  2 to 5 fields: \<open>get_status\<close> then sets frequency to field 1, sets signal_strength,
  mode and volume to their field when the reply has it and to \<open>None\<close> otherwise, sets
  squelch to \<open>None\<close>, and stores the raw reply in status, whatever the snapshot held
  before. Nothing on this path raises.
\<close>

theorem sts_truncated_overwrites:
  assumes "fst (send_command ''STS'' s w) = Some r"
    and "parts = split_str CHR '','' r"
    and "2 \<le> length parts" and "length parts < 6"
  shows "frequency (scanner_data (fst (get_status s w))) = PyStr (parts ! 1)
       \<and> signal_strength (scanner_data (fst (get_status s w)))
           = (if 2 < length parts then PyStr (parts ! 2) else PyNone)
       \<and> mode (scanner_data (fst (get_status s w)))
           = (if 3 < length parts then PyStr (parts ! 3) else PyNone)
       \<and> volume (scanner_data (fst (get_status s w)))
           = (if 4 < length parts then PyStr (parts ! 4) else PyNone)
       \<and> squelch (scanner_data (fst (get_status s w))) = PyNone
       \<and> status (scanner_data (fst (get_status s w))) = PyStr r"
proof -
  obtain s1 w1 where a: "send_command ''STS'' s w = (Some r, s1, w1)"
    using assms(1) by (cases "send_command ''STS'' s w") auto
  have ne: "r \<noteq> []"
    using assms(2,3) by auto
  have p: "parse_response r ''STS'' =
      PyDict [(''frequency'', PyStr (parts ! 1)),
              (''signal_strength'', if 2 < length parts then PyStr (parts ! 2) else PyNone),
              (''mode'', if 3 < length parts then PyStr (parts ! 3) else PyNone),
              (''volume'', if 4 < length parts then PyStr (parts ! 4) else PyNone),
              (''squelch'', PyNone)]"
    using ne assms(2,3,4) by (simp add: parse_response_def Let_def)
  have g: "fst (get_status s w) =
      set_data (\<lambda>d. d\<lparr>status := PyStr r,
                       all_responses := (all_responses d)(''STS'' \<mapsto> r)\<rparr>)
        (set_data (update [(''frequency'', PyStr (parts ! 1)),
              (''signal_strength'', if 2 < length parts then PyStr (parts ! 2) else PyNone),
              (''mode'', if 3 < length parts then PyStr (parts ! 3) else PyNone),
              (''volume'', if 4 < length parts then PyStr (parts ! 4) else PyNone),
              (''squelch'', PyNone)]) s1)"
    using a ne p by (simp add: get_status_def truthy_def Let_def)
  show ?thesis
    unfolding g by (simp add: set_data_def update_def setitem_def)
qed

theorem sts_truncated_overwrites_witness:
  "fst (send_command ''STS'' (tuned (replies [''STS,462.5500,45''])) quiet_world)
     = Some ''STS,462.5500,45''
   \<and> length (split_str CHR '','' ''STS,462.5500,45'') = 3
   \<and> frequency (scanner_data (fst (get_status (tuned (replies [''STS,462.5500,45''])) quiet_world)))
       = PyStr ''462.5500''
   \<and> signal_strength (scanner_data (fst (get_status (tuned (replies [''STS,462.5500,45''])) quiet_world)))
       = PyStr ''45''
   \<and> mode (scanner_data (fst (get_status (tuned (replies [''STS,462.5500,45''])) quiet_world)))
       = PyNone
   \<and> volume (scanner_data (fst (get_status (tuned (replies [''STS,462.5500,45''])) quiet_world)))
       = PyNone
   \<and> squelch (scanner_data (fst (get_status (tuned (replies [''STS,462.5500,45''])) quiet_world)))
       = PyNone"
proof -
  have h: "fst (send_command ''STS'' (tuned (replies [''STS,462.5500,45''])) quiet_world)
             = Some ''STS,462.5500,45''"
    by (simp add: run_defs)
  have l: "length (split_str CHR '','' ''STS,462.5500,45'') = 3"
    by simp
  show ?thesis
    using h l sts_truncated_overwrites [OF h refl] by simp
qed

text \<open>
  C1 as stated fails for a reply of one field: the device answers \<open>STS\<close> alone, every
  position is missing, and the snapshot keeps the frequency and squelch of the cycle
  before.
\<close>

theorem sts_one_field_counterexample:
  "fst (send_command ''STS'' (tuned (replies [''STS''])) quiet_world) = Some ''STS''
   \<and> length (split_str CHR '','' ''STS'') < 6
   \<and> frequency (scanner_data (tuned (replies [''STS'']))) = PyStr ''154.6700''
   \<and> frequency (scanner_data (fst (get_status (tuned (replies [''STS''])) quiet_world)))
       = PyStr ''154.6700''
   \<and> squelch (scanner_data (fst (get_status (tuned (replies [''STS''])) quiet_world)))
       = PyStr ''2''"
  by (simp add: run_defs)

subsection \<open>C2: I/O errors\<close>




subsection \<open>C3: Timeouts\<close>

text \<open>
  C3, as amended. In a cycle that starts connected on an open socket, whatever times
  out: \<open>connected\<close> stays true, all three queries MDL, VER, STS are sent in that
  order, and the cycle returns \<open>True\<close>. A timeout is logged as a warning and makes
  \<open>send_command\<close> return \<open>None\<close>; the snapshot's error field is left as it was.
\<close>

theorem timeout_isolated:
  fixes cmd :: string and s :: scanner and w :: world
  defines "command \<equiv> (if \<not> endswith_cr cmd then cmd @ [CHR 0x0D] else cmd)"
  shows "(\<forall>m s1. send_command_try command s = (Inl (SocketTimeout m), s1)
            \<longrightarrow> send_command cmd s w
                  = (None, s1, logger WARNING (''Socket timeout for command: '' @ command) w)
                \<and> scanner_data s1 = scanner_data s)
       \<and> (\<forall>k. connected (scanner_data s) \<and> socket s = Some k \<and> \<not> closed k \<and> established k
            \<longrightarrow> fst (pull_all_data s w)
                \<and> connected (scanner_data (fst (snd (pull_all_data s w))))
                \<and> error (scanner_data (fst (snd (pull_all_data s w)))) = error (scanner_data s)
                \<and> (\<exists>k'. socket (fst (snd (pull_all_data s w))) = Some k'
                         \<and> sent k' = sent k @ [''MDL'' @ [CHR 0x0D], ''VER'' @ [CHR 0x0D],
                                                 ''STS'' @ [CHR 0x0D]]))"
proof -
  have a: "send_command cmd s w
             = (None, s1, logger WARNING (''Socket timeout for command: '' @ command) w)
           \<and> scanner_data s1 = scanner_data s"
    if "send_command_try command s = (Inl (SocketTimeout m), s1)" for m s1
    using that send_command_try_data(1)[OF that]
    by (simp add: send_command_def command_def Let_def)
  have b: "fst (pull_all_data s w)
         \<and> connected (scanner_data (fst (snd (pull_all_data s w))))
         \<and> error (scanner_data (fst (snd (pull_all_data s w)))) = error (scanner_data s)
         \<and> (\<exists>k'. socket (fst (snd (pull_all_data s w))) = Some k'
                  \<and> sent k' = sent k @ [''MDL'' @ [CHR 0x0D], ''VER'' @ [CHR 0x0D],
                                          ''STS'' @ [CHR 0x0D]])"
    if h: "connected (scanner_data s)" "socket s = Some k" "\<not> closed k" "established k" for k
  proof -
    let ?s0 = "set_data (\<lambda>d. d\<lparr>timestamp := Some (clock w (clock_reads w))\<rparr>) s"
    let ?w0 = "w\<lparr>clock_reads := Suc (clock_reads w)\<rparr>"
    obtain ok s' w' where p: "pull_queries ?s0 ?w0 = (ok, s', w')"
      by (cases "pull_queries ?s0 ?w0")
    have q: "pull_all_data s w = (ok, s', w')"
      using p h(1) by (simp add: pull_all_data_connected)
    have k0: "socket ?s0 = Some k"
      using h(2) by (simp add: set_data_def)
    note f = pull_queries_frame(1,2,3)[OF p]
    from pull_queries_sock[OF p k0 h(3,4)] obtain k' where
      "socket s' = Some k'"
      "sent k' = sent k @ [''MDL'' @ [CHR 0x0D], ''VER'' @ [CHR 0x0D], ''STS'' @ [CHR 0x0D]]"
      by blast
    then show ?thesis
      using q f h(1) by (simp add: set_data_def)
  qed
  show ?thesis
    using a b by blast
qed

theorem timeout_isolated_witness:
  "(\<exists>s1. send_command_try (''MDL'' @ [CHR 0x0D]) slow_link = (Inl (SocketTimeout ''timed out''), s1)
        \<and> send_command ''MDL'' slow_link quiet_world
            = (None, s1,
               logger WARNING (''Socket timeout for command: '' @ ''MDL'' @ [CHR 0x0D]) quiet_world))
   \<and> connected (scanner_data slow_link)
   \<and> fst (pull_all_data slow_link quiet_world)
   \<and> connected (scanner_data (fst (snd (pull_all_data slow_link quiet_world))))
   \<and> error (scanner_data (fst (snd (pull_all_data slow_link quiet_world)))) = PyNone"
proof -
  obtain s1 where h: "send_command_try (''MDL'' @ [CHR 0x0D]) slow_link
                        = (Inl (SocketTimeout ''timed out''), s1)"
    by (simp add: send_command_try_def sendall_def recv_def slow_link_def tuned_def Let_def)
  obtain k where k: "socket slow_link = Some k" "\<not> closed k" "established k"
    by (simp add: slow_link_def tuned_def)
  have c: "connected (scanner_data slow_link)" and n: "error (scanner_data slow_link) = PyNone"
    by (simp_all add: slow_link_def tuned_def)
  note t = timeout_isolated [of "''MDL''" slow_link quiet_world]
  have e: "\<not> endswith_cr ''MDL''"
    by (simp add: endswith_cr_def)
  show ?thesis
    using t h k c n e by auto
qed

text \<open>
  C3 as stated fails: the MDL query of a connected cycle times out, the timeout is
  logged as a warning, and at the end of the cycle the snapshot's error field is still
  \<open>None\<close>, not an error string.
\<close>

theorem timeout_error_counterexample:
  "connected (scanner_data slow_link)
   \<and> fst (send_command ''MDL'' slow_link quiet_world) = None
   \<and> log (snd (snd (send_command ''MDL'' slow_link quiet_world)))
       = [(WARNING, ''Socket timeout for command: MDL'' @ [CHR 0x0D])]
   \<and> firmware (scanner_data (fst (snd (pull_all_data slow_link quiet_world)))) = PyStr ''1.02.00''
   \<and> error (scanner_data (fst (snd (pull_all_data slow_link quiet_world)))) = PyNone"
  by (simp add: run_defs slow_link_def)

subsection \<open>C4: MDL and VER replies\<close>

text \<open>
  C4, as amended. For the command types MDL and VER, \<open>parse_response\<close> returns the
  second comma-separated field when the reply has at least two fields; a non-empty
  reply with fewer than two fields is returned whole, as the raw line, and only the
  empty reply gives \<open>None\<close>. The raw reply \<open>MDL,HP1,\<close> parses to \<open>HP1\<close>.
\<close>

theorem mdl_ver_payload:
  assumes "ct = ''MDL'' \<or> ct = ''VER''"
  shows "parse_response r ct =
           (if r = [] then PyNone
            else if 2 \<le> length (split_str CHR '','' r) then PyStr (split_str CHR '','' r ! 1)
            else PyStr r)
       \<and> parse_response ''MDL,HP1,'' ''MDL'' = PyStr ''HP1''"
  using assms by (auto simp: parse_response_def Let_def)

theorem mdl_ver_payload_witness:
  "(''VER'' = ''MDL'' \<or> ''VER'' = ''VER'')
   \<and> parse_response ''VER,1.02.00,'' ''VER'' = PyStr ''1.02.00''
   \<and> parse_response ''MDL,HP1,'' ''MDL'' = PyStr ''HP1''"
  using mdl_ver_payload [of "''VER''" "''VER,1.02.00,''"] by simp

text \<open>
  C4 as stated fails for a reply of one field: \<open>MDL\<close> alone has fewer than two fields
  and parses to the raw line \<open>MDL\<close>, not to \<open>None\<close>.
\<close>

theorem mdl_one_field_counterexample:
  "length (split_str CHR '','' ''MDL'') < 2
   \<and> parse_response ''MDL'' ''MDL'' = PyStr ''MDL''
   \<and> parse_response ''MDL'' ''MDL'' \<noteq> PyNone"
  by (simp add: parse_response_def)

subsection \<open>C5: The end-to-end cycle\<close>

text \<open>
  C5. In one cycle against a device that answers \<open>MDL,BCD325P2,\<close>, \<open>VER,1.02.00,\<close>
  and \<open>STS,154.6700,60,NFM,8,2\<close>, whether the cycle has to connect first or starts
  connected with no error, the snapshot ends with model \<open>BCD325P2\<close>, firmware
  \<open>1.02.00\<close>, frequency \<open>154.6700\<close>, signal_strength \<open>60\<close>, mode \<open>NFM\<close>, volume
  \<open>8\<close>, squelch \<open>2\<close>, connected true and error \<open>None\<close>. In general an STS reply of
  six comma-free fields parses by position, as \<open>STS,462.5500,45,FM,12,3\<close> does.
\<close>

theorem end_to_end_cycle:
  fixes s :: scanner and w :: world and interval :: nat
  defines "answers \<equiv> replies [''MDL,BCD325P2,'', ''VER,1.02.00,'', ''STS,154.6700,60,NFM,8,2'']"
  defines "d \<equiv> scanner_data (fst (cycle interval s w))"
  shows "((\<not> connected (scanner_data s) \<and> network w = Accepted [] (answers @ rs) cf # rest)
          \<or> (connected (scanner_data s) \<and> error (scanner_data s) = PyNone
              \<and> socket s = Some k \<and> \<not> closed k \<and> established k
              \<and> send_script k = [] \<and> recv_script k = answers @ rs)
         \<longrightarrow> model d = PyStr ''BCD325P2'' \<and> firmware d = PyStr ''1.02.00''
             \<and> frequency d = PyStr ''154.6700'' \<and> signal_strength d = PyStr ''60''
             \<and> mode d = PyStr ''NFM'' \<and> volume d = PyStr ''8'' \<and> squelch d = PyStr ''2''
             \<and> connected d \<and> error d = PyNone)
       \<and> (CHR '','' \<notin> set f \<and> CHR '','' \<notin> set g \<and> CHR '','' \<notin> set m
            \<and> CHR '','' \<notin> set v \<and> CHR '','' \<notin> set q
         \<longrightarrow> parse_response (''STS,'' @ f @ '','' @ g @ '','' @ m @ '','' @ v @ '','' @ q) ''STS''
               = PyDict [(''frequency'', PyStr f), (''signal_strength'', PyStr g),
                         (''mode'', PyStr m), (''volume'', PyStr v), (''squelch'', PyStr q)])
       \<and> parse_response ''STS,462.5500,45,FM,12,3'' ''STS''
           = PyDict [(''frequency'', PyStr ''462.5500''), (''signal_strength'', PyStr ''45''),
                     (''mode'', PyStr ''FM''), (''volume'', PyStr ''12''),
                     (''squelch'', PyStr ''3'')]"
proof -
  let ?goal = "model d = PyStr ''BCD325P2'' \<and> firmware d = PyStr ''1.02.00''
             \<and> frequency d = PyStr ''154.6700'' \<and> signal_strength d = PyStr ''60''
             \<and> mode d = PyStr ''NFM'' \<and> volume d = PyStr ''8'' \<and> squelch d = PyStr ''2''
             \<and> connected d \<and> error d = PyNone"
  have a: ?goal
    if "\<not> connected (scanner_data s)" "network w = Accepted [] (answers @ rs) cf # rest"
    using that unfolding d_def answers_def
    by (simp add: run_defs cycle_def)
  have b: ?goal
    if "connected (scanner_data s)" "error (scanner_data s) = PyNone"
       "socket s = Some k" "\<not> closed k" "established k"
       "send_script k = []" "recv_script k = answers @ rs"
    using that unfolding d_def answers_def
    by (simp add: run_defs cycle_def)
  have c: "parse_response (''STS,'' @ f @ '','' @ g @ '','' @ m @ '','' @ v @ '','' @ q) ''STS''
               = PyDict [(''frequency'', PyStr f), (''signal_strength'', PyStr g),
                         (''mode'', PyStr m), (''volume'', PyStr v), (''squelch'', PyStr q)]"
    if "CHR '','' \<notin> set f" "CHR '','' \<notin> set g" "CHR '','' \<notin> set m"
       "CHR '','' \<notin> set v" "CHR '','' \<notin> set q"
  proof -
    have "split_str CHR '','' (''STS,'' @ f @ '','' @ g @ '','' @ m @ '','' @ v @ '','' @ q)
            = [''STS'', f, g, m, v, q]"
      using that by (simp add: split_str_field split_str_last)
    then show ?thesis
      by (simp add: parse_response_def)
  qed
  have e: "parse_response ''STS,462.5500,45,FM,12,3'' ''STS''
           = PyDict [(''frequency'', PyStr ''462.5500''), (''signal_strength'', PyStr ''45''),
                     (''mode'', PyStr ''FM''), (''volume'', PyStr ''12''),
                     (''squelch'', PyStr ''3'')]"
    by (simp add: parse_response_def)
  show ?thesis
    using a b c e by blast
qed

theorem end_to_end_cycle_witness:
  "\<not> connected (scanner_data scanner0)
   \<and> network (device (replies [''MDL,BCD325P2,'', ''VER,1.02.00,'', ''STS,154.6700,60,NFM,8,2'']))
       = [Accepted [] (replies [''MDL,BCD325P2,'', ''VER,1.02.00,'', ''STS,154.6700,60,NFM,8,2''])
            None]
   \<and> model (scanner_data (fst (cycle 1 scanner0
         (device (replies [''MDL,BCD325P2,'', ''VER,1.02.00,'', ''STS,154.6700,60,NFM,8,2''])))))
       = PyStr ''BCD325P2''
   \<and> squelch (scanner_data (fst (cycle 1 scanner0
         (device (replies [''MDL,BCD325P2,'', ''VER,1.02.00,'', ''STS,154.6700,60,NFM,8,2''])))))
       = PyStr ''2''
   \<and> error (scanner_data (fst (cycle 1 scanner0
         (device (replies [''MDL,BCD325P2,'', ''VER,1.02.00,'', ''STS,154.6700,60,NFM,8,2''])))))
       = PyNone
   \<and> CHR '','' \<notin> set ''462.5500''
   \<and> parse_response (''STS,'' @ ''462.5500'' @ '','' @ ''45'' @ '','' @ ''FM'' @ '','' @ ''12''
                        @ '','' @ ''3'') ''STS''
       = PyDict [(''frequency'', PyStr ''462.5500''), (''signal_strength'', PyStr ''45''),
                 (''mode'', PyStr ''FM''), (''volume'', PyStr ''12''), (''squelch'', PyStr ''3'')]"
proof -
  have c: "\<not> connected (scanner_data scanner0)"
    by (simp add: scanner0_def init_def)
  have n: "network (device (replies [''MDL,BCD325P2,'', ''VER,1.02.00,'',
                                     ''STS,154.6700,60,NFM,8,2'']))
           = [Accepted [] (replies [''MDL,BCD325P2,'', ''VER,1.02.00,'',
                                    ''STS,154.6700,60,NFM,8,2''] @ []) None]"
    by (simp add: device_def)
  have f: "CHR '','' \<notin> set ''462.5500''" "CHR '','' \<notin> set ''45''" "CHR '','' \<notin> set ''FM''"
    "CHR '','' \<notin> set ''12''" "CHR '','' \<notin> set ''3''"
    by simp_all
  note t = end_to_end_cycle [where s = scanner0 and interval = 1 and rs = "[]" and cf = None
      and rest = "[]" and f = "''462.5500''" and g = "''45''" and m = "''FM''" and v = "''12''"
      and q = "''3''"
      and w = "device (replies [''MDL,BCD325P2,'', ''VER,1.02.00,'', ''STS,154.6700,60,NFM,8,2''])"]
  show ?thesis
    using t c n f by simp
qed

subsection \<open>C6: \<open>connect\<close>\<close>

text \<open>
  C6, as amended. \<open>connect\<close> on success returns \<open>True\<close>, sets \<open>connected\<close> and
  clears the error. On failure (the connection is refused or times out, or no socket
  can be created) it returns the bare \<open>False\<close>; the text of the underlying exception
  is not part of the returned value but is stored in the snapshot's error field and
  written to the log, and \<open>connected\<close> is left false. Either way it returns to its
  caller, and its boolean result always equals the new value of \<open>connected\<close>.
\<close>

theorem connect_outcomes:
  "(network w = Accepted ss rs cf # rest
      \<longrightarrow> fst (connect s w)
          \<and> connected (scanner_data (fst (snd (connect s w))))
          \<and> error (scanner_data (fst (snd (connect s w)))) = PyNone)
   \<and> (network w = ConnectFails m # rest \<or> network w = SocketFails m # rest
      \<longrightarrow> \<not> fst (connect s w)
          \<and> \<not> connected (scanner_data (fst (snd (connect s w))))
          \<and> error (scanner_data (fst (snd (connect s w)))) = PyStr m
          \<and> log (snd (snd (connect s w)))
              = log w @ [(ERROR, ''Failed to connect to SDS200: '' @ m)])
   \<and> (network w = []
      \<longrightarrow> \<not> fst (connect s w)
          \<and> \<not> connected (scanner_data (fst (snd (connect s w))))
          \<and> error (scanner_data (fst (snd (connect s w)))) = PyStr ''timed out'')
   \<and> connected (scanner_data (fst (snd (connect s w)))) = fst (connect s w)"
proof -
  have a: "connected (scanner_data (fst (snd (connect s w)))) = fst (connect s w)"
    using connect_frame(10)[of s w] by (cases "connect s w") simp
  have b: "fst (connect s w)
          \<and> connected (scanner_data (fst (snd (connect s w))))
          \<and> error (scanner_data (fst (snd (connect s w)))) = PyNone"
    if "network w = Accepted ss rs cf # rest"
    using that by (simp add: connect_def connect_try_def set_data_def Let_def)
  have c: "\<not> fst (connect s w)
          \<and> \<not> connected (scanner_data (fst (snd (connect s w))))
          \<and> error (scanner_data (fst (snd (connect s w)))) = PyStr m
          \<and> log (snd (snd (connect s w)))
              = log w @ [(ERROR, ''Failed to connect to SDS200: '' @ m)]"
    if "network w = ConnectFails m # rest \<or> network w = SocketFails m # rest"
    using that by (auto simp: connect_def connect_try_def set_data_def logger_def Let_def)
  have d: "\<not> fst (connect s w)
          \<and> \<not> connected (scanner_data (fst (snd (connect s w))))
          \<and> error (scanner_data (fst (snd (connect s w)))) = PyStr ''timed out''"
    if "network w = []"
    using that by (simp add: connect_def connect_try_def set_data_def Let_def)
  show ?thesis
    using a b c d by blast
qed

theorem connect_outcomes_witness:
  "network (device []) = [Accepted [] [] None]
   \<and> fst (connect scanner0 (device []))
   \<and> connected (scanner_data (fst (snd (connect scanner0 (device [])))))
   \<and> network (quiet_world\<lparr>network := [ConnectFails ''[Errno 111] Connection refused'']\<rparr>)
       = [ConnectFails ''[Errno 111] Connection refused'']
   \<and> \<not> fst (connect scanner0
              (quiet_world\<lparr>network := [ConnectFails ''[Errno 111] Connection refused'']\<rparr>))
   \<and> error (scanner_data (fst (snd (connect scanner0
              (quiet_world\<lparr>network := [ConnectFails ''[Errno 111] Connection refused'']\<rparr>)))))
       = PyStr ''[Errno 111] Connection refused''
   \<and> network quiet_world = []
   \<and> error (scanner_data (fst (snd (connect scanner0 quiet_world)))) = PyStr ''timed out''"
proof -
  have n1: "network (device []) = [Accepted [] [] None]"
    by (simp add: device_def)
  have n2: "network (quiet_world\<lparr>network := [ConnectFails ''[Errno 111] Connection refused'']\<rparr>)
              = [ConnectFails ''[Errno 111] Connection refused'']"
    by simp
  have n3: "network quiet_world = []"
    by (simp add: quiet_world_def)
  show ?thesis
    using n1 n2 n3
      connect_outcomes [of "device []" "[]" "[]" None "[]" scanner0]
      connect_outcomes [of "quiet_world\<lparr>network := [ConnectFails ''[Errno 111] Connection refused'']\<rparr>"
                           _ _ _ "[]" scanner0 "''[Errno 111] Connection refused''"]
      connect_outcomes [of quiet_world _ _ _ _ scanner0]
    by simp
qed

text \<open>
  C6 as stated fails in one part: the result that \<open>connect\<close> returns on failure does
  not carry the error message. A refused connection and a connection that times out
  both return the bare \<open>False\<close>; the two messages differ only in the snapshot's error
  field.
\<close>

theorem connect_result_counterexample:
  "fst (connect scanner0
         (quiet_world\<lparr>network := [ConnectFails ''[Errno 111] Connection refused'']\<rparr>))
     = False
   \<and> fst (connect scanner0 (quiet_world\<lparr>network := [ConnectFails ''timed out'']\<rparr>))
     = False
   \<and> error (scanner_data (fst (snd (connect scanner0
         (quiet_world\<lparr>network := [ConnectFails ''[Errno 111] Connection refused'']\<rparr>)))))
     = PyStr ''[Errno 111] Connection refused''
   \<and> error (scanner_data (fst (snd (connect scanner0
         (quiet_world\<lparr>network := [ConnectFails ''timed out'']\<rparr>)))))
     = PyStr ''timed out''"
  by (simp add: connect_def connect_try_def set_data_def logger_def quiet_world_def Let_def)

subsection \<open>C7: Stamping and publishing\<close>



subsection \<open>C8: \<open>disconnect\<close> twice\<close>

text \<open>
  C8, at the input where it fails. The device accepted the connection, and releasing
  the descriptor fails with an I/O error. The first \<open>disconnect\<close> logs the error and
  returns, but \<open>connected\<close> is still true after it; only the second call, whose
  \<open>close()\<close> finds the socket already closed, sets \<open>connected\<close> to false.
\<close>

theorem disconnect_close_fault:
  "connected (scanner_data faulty_link)
   \<and> connected (scanner_data (fst (disconnect faulty_link quiet_world)))
   \<and> log (snd (disconnect faulty_link quiet_world))
       = [(ERROR, ''Error disconnecting: [Errno 5] Input/output error'')]
   \<and> \<not> connected (scanner_data
          (fst (disconnect (fst (disconnect faulty_link quiet_world))
                           (snd (disconnect faulty_link quiet_world)))))"
  by (simp add: disconnect_def sock_close_def faulty_link_def connect_def connect_try_def
        set_data_def logger_def fresh_sock_def quiet_world_def scanner0_def init_def Let_def)

subsection \<open>C9: \<open>send_command\<close> always returns\<close>

text \<open>
  C9. \<open>send_command\<close> returns for every command and every state of the scanner:
  whatever the body of its \<open>try\<close> raises becomes the result \<open>None\<close>, whatever the body
  returns becomes the response, and with no socket at all (\<open>self.socket\<close> is \<open>None\<close>)
  the result is \<open>None\<close>.
\<close>

theorem send_command_total:
  fixes cmd :: string and s :: scanner and w :: world
  defines "command \<equiv> (if \<not> endswith_cr cmd then cmd @ [CHR 0x0D] else cmd)"
  shows "(\<forall>e s1. send_command_try command s = (Inl e, s1)
            \<longrightarrow> fst (send_command cmd s w) = None)
       \<and> (\<forall>r s1. send_command_try command s = (Inr r, s1)
            \<longrightarrow> fst (send_command cmd s w) = Some r)
       \<and> (socket s = None \<longrightarrow> fst (send_command cmd s w) = None)"
  by (auto simp: send_command_def send_command_try_def command_def Let_def
           split: exn.splits)

theorem send_command_total_witness:
  "socket scanner0 = None \<and> fst (send_command ''MDL'' scanner0 quiet_world) = None"
  using send_command_total [of "''MDL''" scanner0 quiet_world]
  by (simp add: scanner0_def init_def)

subsection \<open>C10: No response, no change\<close>

text \<open>
  C10. When \<open>send_command\<close> yields no response, \<open>get_model\<close>, \<open>get_firmware\<close> and
  \<open>get_status\<close> each leave the whole of \<open>scanner_data\<close> as it was: every field, the
  error and the \<open>all_responses\<close> mapping.
\<close>

theorem no_response_keeps_snapshot:
  "(fst (send_command ''MDL'' s w) = None
      \<longrightarrow> scanner_data (fst (get_model s w)) = scanner_data s)
   \<and> (fst (send_command ''VER'' s w) = None
      \<longrightarrow> scanner_data (fst (get_firmware s w)) = scanner_data s)
   \<and> (fst (send_command ''STS'' s w) = None
      \<longrightarrow> scanner_data (fst (get_status s w)) = scanner_data s)"
  using get_model_no_response get_firmware_no_response get_status_no_response by blast

theorem no_response_keeps_snapshot_witness:
  "fst (send_command ''MDL'' (tuned [RecvTimeout]) quiet_world) = None
   \<and> fst (send_command ''VER'' (tuned [RecvTimeout]) quiet_world) = None
   \<and> fst (send_command ''STS'' (tuned [RecvTimeout]) quiet_world) = None
   \<and> scanner_data (fst (get_model (tuned [RecvTimeout]) quiet_world))
       = scanner_data (tuned [RecvTimeout])
   \<and> scanner_data (fst (get_firmware (tuned [RecvTimeout]) quiet_world))
       = scanner_data (tuned [RecvTimeout])
   \<and> scanner_data (fst (get_status (tuned [RecvTimeout]) quiet_world))
       = scanner_data (tuned [RecvTimeout])"
proof -
  have h: "fst (send_command ''MDL'' (tuned [RecvTimeout]) quiet_world) = None"
    "fst (send_command ''VER'' (tuned [RecvTimeout]) quiet_world) = None"
    "fst (send_command ''STS'' (tuned [RecvTimeout]) quiet_world) = None"
    by (simp_all add: send_command_def send_command_try_def sendall_def recv_def tuned_def
          endswith_cr_def Let_def)
  show ?thesis
    using h no_response_keeps_snapshot [of "tuned [RecvTimeout]" quiet_world] by blast
qed

end
